theory Spec2Isabelle
  imports Main "HOL-Library.Word" "HOL-Library.Sublist"
begin

section \<open>logcplus: a shallow embedding of \<^verbatim>\<open>src/logcplus.h\<close>\<close>

text \<open>
  The header is modelled component by component, in the order of the source:
  the concurrent queue, the time of day, the file size and its parser, the directory
  watcher, the file watcher, the logger and the configuration loader.
  C++ exceptions are values of the type \<open>exception\<close>; a function that can let one
  escape returns \<open>exception + 'a\<close>, with \<open>Inl\<close> for the exception.
\<close>

datatype exception = bad_any_cast | invalid_argument | out_of_range | filesystem_error

subsection \<open>ConcurrentQueue\<close>

text \<open>
  \<^verbatim>\<open>std::queue<T> queueContainer_\<close> is a list, head first. Every operation runs under
  the mutex, so each is one atomic step on the list. \<^verbatim>\<open>dequeue\<close> waits on the condition
  variable while the queue is empty: with no other thread to enqueue, it never returns,
  which is the value \<open>None\<close>. \<^verbatim>\<open>take\<close> calls \<^verbatim>\<open>front()\<close> with no emptiness check; on
  an empty \<^verbatim>\<open>std::queue\<close> that is undefined behaviour, the value \<open>None\<close> here. Both
  return the queue they leave behind next to the item.
\<close>

type_synonym 'a ConcurrentQueue = "'a list"

definition take_queue :: "'a ConcurrentQueue \<Rightarrow> ('a \<times> 'a ConcurrentQueue) option" where
  "take_queue q = (case q of [] \<Rightarrow> None | x # xs \<Rightarrow> Some (x, q))"

definition enqueue :: "'a \<Rightarrow> 'a ConcurrentQueue \<Rightarrow> 'a ConcurrentQueue" where
  "enqueue queueItem q = q @ [queueItem]"

definition dequeue :: "'a ConcurrentQueue \<Rightarrow> ('a \<times> 'a ConcurrentQueue) option" where
  "dequeue q = (case q of [] \<Rightarrow> None | x # xs \<Rightarrow> Some (x, xs))"

definition clear_queue :: "'a ConcurrentQueue \<Rightarrow> 'a ConcurrentQueue" where
  "clear_queue q = []"

definition length_queue :: "'a ConcurrentQueue \<Rightarrow> nat" where
  "length_queue q = length q"

definition empty_queue :: "'a ConcurrentQueue \<Rightarrow> bool" where
  "empty_queue q = (q = [])"

text \<open>
  A client's sequence of calls. \<open>run_ops\<close> performs them in order and collects what the
  dequeues return; it is \<open>None\<close> when a dequeue would wait forever.
\<close>

datatype 'a queue_op = Enqueue 'a | Dequeue

fun run_ops :: "'a queue_op list \<Rightarrow> 'a ConcurrentQueue \<Rightarrow> ('a list \<times> 'a ConcurrentQueue) option" where
  "run_ops [] q = Some ([], q)"
| "run_ops (Enqueue x # ops) q = run_ops ops (enqueue x q)"
| "run_ops (Dequeue # ops) q =
     (case dequeue q of
        None \<Rightarrow> None
      | Some (x, q') \<Rightarrow> (case run_ops ops q' of None \<Rightarrow> None | Some (outs, q'') \<Rightarrow> Some (x # outs, q'')))"

fun enqueued :: "'a queue_op list \<Rightarrow> 'a list" where
  "enqueued [] = []"
| "enqueued (Enqueue x # ops) = x # enqueued ops"
| "enqueued (Dequeue # ops) = enqueued ops"

subsection \<open>Date::Time\<close>

record Time =
  hour :: int
  minute :: int
  second :: int

subsection \<open>FileSize\<close>

text \<open>
  \<^verbatim>\<open>size\<close> is a \<^verbatim>\<open>std::uintmax_t\<close>, a 64-bit word; the enumerators of \<^verbatim>\<open>SizeUnit\<close> carry
  the number of bytes of the unit, and \<^verbatim>\<open>bsize\<close> multiplies in \<^verbatim>\<open>std::uintmax_t\<close>.
\<close>

datatype SizeUnit = B | KB | KiB | MB | MiB | GB | GiB

fun unit_value :: "SizeUnit \<Rightarrow> 64 word" where
  "unit_value B = 1"
| "unit_value KB = 1000"
| "unit_value KiB = 1024"
| "unit_value MB = 1000000"
| "unit_value MiB = 1048576"
| "unit_value GB = 1000000000"
| "unit_value GiB = 1073741824"

record FileSize =
  size_v :: "64 word"
  unit_v :: SizeUnit

definition FileSize_default :: FileSize where
  "FileSize_default = \<lparr>size_v = 1, unit_v = B\<rparr>"

definition bsize :: "FileSize \<Rightarrow> 64 word" where
  "bsize fs = size_v fs * unit_value (unit_v fs)"

definition isdigit :: "char \<Rightarrow> bool" where
  "isdigit c = (c \<in> set ''0123456789'')"

definition digit_value :: "char \<Rightarrow> nat" where
  "digit_value c = of_char c - 48"

definition decimal :: "string \<Rightarrow> nat" where
  "decimal s = foldl (\<lambda>a c. 10 * a + digit_value c) 0 s"

text \<open>
  \<^verbatim>\<open>std::stoi\<close> and \<^verbatim>\<open>std::stoull\<close>, on the strings this program passes them: strings of
  decimal digits, possibly empty. With nothing to convert they throw
  \<^verbatim>\<open>std::invalid_argument\<close>, with a value beyond the result type \<^verbatim>\<open>std::out_of_range\<close>.
\<close>

definition stoi :: "string \<Rightarrow> exception + int" where
  "stoi s = (if s = [] then Inl invalid_argument
             else if decimal s > 2147483647 then Inl out_of_range
             else Inr (int (decimal s)))"

definition stoull :: "string \<Rightarrow> exception + 64 word" where
  "stoull s = (if s = [] then Inl invalid_argument
               else if decimal s > 18446744073709551615 then Inl out_of_range
               else Inr (of_nat (decimal s)))"

definition parse_unit :: "string \<Rightarrow> SizeUnit option" where
  "parse_unit u =
     (if u = ''B'' then Some B
      else if u = ''KB'' then Some KB
      else if u = ''KiB'' then Some KiB
      else if u = ''MB'' then Some MB
      else if u = ''MiB'' then Some MiB
      else if u = ''GB'' then Some GB
      else if u = ''GiB'' then Some GiB
      else None)"

text \<open>
  \<^verbatim>\<open>parseFileSize\<close>: \<open>it\<close> is the index where the \<^verbatim>\<open>for\<close> loop stops, the length of the
  longest prefix of digits. Every exception is caught inside: the \<^verbatim>\<open>catch\<close> writes one
  line to \<^verbatim>\<open>std::cerr\<close>, ending in the exception's \<^verbatim>\<open>what()\<close> (the library's text,
  \<^verbatim>\<open>stoi\<close> for what \<^verbatim>\<open>std::stoi\<close> throws), and returns \<^verbatim>\<open>std::nullopt\<close>. When the text
  has no leading digit, or nothing after the digits, the \<^verbatim>\<open>if\<close> is skipped and the
  default-constructed \<^verbatim>\<open>result\<close> is returned. The function returns the lines written
  to \<^verbatim>\<open>std::cerr\<close> and the result.
\<close>

definition parseFileSize :: "string \<Rightarrow> string list \<times> FileSize option" where
  "parseFileSize fileSize =
     (let it = length (takeWhile isdigit fileSize) in
      if 0 < it \<and> it < length fileSize then
        (case stoi (take it fileSize) of
           Inl ex \<Rightarrow> ([''logcplus: Cannot parse file size, reason: stoi''], None)
         | Inr sz \<Rightarrow>
             if sz \<le> 0 then ([], None)
             else (case parse_unit (drop it fileSize) of
                     None \<Rightarrow> ([], None)
                   | Some u \<Rightarrow> ([], Some \<lparr>size_v = of_int sz, unit_v = u\<rparr>)))
      else ([], Some FileSize_default))"

subsection \<open>The file system\<close>

text \<open>
  What the program sees of a directory: one entry per file, with the full path the
  directory iterators yield, the type of the file (a regular file, a directory, which
  is empty or not, or anything else), its last write time in milliseconds, the lines
  written to it, and whether the operating system lets the process delete it.
\<close>

datatype file_type = regular | directory (empty_directory: bool) | other

record file_entry =
  path :: string
  status :: file_type
  last_write_time :: int
  content :: "string list"
  deletable :: bool

definition is_regular_file :: "file_entry \<Rightarrow> bool" where
  "is_regular_file file = (status file = regular)"

definition is_directory :: "file_entry \<Rightarrow> bool" where
  "is_directory file = (case status file of directory b \<Rightarrow> True | _ \<Rightarrow> False)"

text \<open>\<^verbatim>\<open>path::filename()\<close>: what follows the last separator.\<close>

definition filename :: "string \<Rightarrow> string" where
  "filename p = rev (takeWhile (\<lambda>c. c \<noteq> CHR ''/'') (rev p))"

text \<open>
  \<^verbatim>\<open>std::filesystem::remove\<close>: \<^verbatim>\<open>false\<close> and no change when nothing is at the path,
  a \<^verbatim>\<open>filesystem_error\<close> when the operating system refuses.
\<close>

definition fs_remove :: "string \<Rightarrow> file_entry list \<Rightarrow> exception + file_entry list" where
  "fs_remove p fs =
     (case find (\<lambda>e. path e = p) fs of
        None \<Rightarrow> Inr fs
      | Some e \<Rightarrow> if deletable e then Inr (filter (\<lambda>e. path e \<noteq> p) fs) else Inl filesystem_error)"

text \<open>
  \<^verbatim>\<open>std::filesystem::rename\<close> of an entry inside one directory, as \<^verbatim>\<open>rename(2)\<close>
  does it: a \<^verbatim>\<open>filesystem_error\<close> when nothing is at the old path; nothing to do when
  both paths are the same; with nothing at the new path the entry moves there;
  otherwise a directory replaces an empty directory only, and a file that is not a
  directory replaces any file that is not a directory.
\<close>

fun replaces :: "file_type \<Rightarrow> file_type \<Rightarrow> bool" where
  "replaces (directory a) (directory b) = b"
| "replaces (directory a) t = False"
| "replaces s (directory b) = False"
| "replaces s t = True"

definition fs_rename :: "string \<Rightarrow> string \<Rightarrow> file_entry list \<Rightarrow> exception + file_entry list" where
  "fs_rename old new fs =
     (case find (\<lambda>e. path e = old) fs of
        None \<Rightarrow> Inl filesystem_error
      | Some e \<Rightarrow>
          if old = new then Inr fs
          else
            (case find (\<lambda>t. path t = new) fs of
               Some t \<Rightarrow>
                 if replaces (status e) (status t)
                 then Inr (map (\<lambda>x. if path x = old then x\<lparr>path := new\<rparr> else x)
                              (filter (\<lambda>x. path x \<noteq> new) fs))
                 else Inl filesystem_error
             | None \<Rightarrow> Inr (map (\<lambda>x. if path x = old then x\<lparr>path := new\<rparr> else x) fs)))"

text \<open>
  \<^verbatim>\<open>std::ofstream::open\<close> with \<^verbatim>\<open>out | app\<close> in a directory that exists: a file that
  is there is opened as it is, unless it is a directory; a missing one is created
  empty. A failed open sets \<^verbatim>\<open>failbit\<close> and the stream stays closed (only \<^verbatim>\<open>badbit\<close>
  throws). The result says whether the stream is open.
\<close>

definition ofstream_open :: "int \<Rightarrow> string \<Rightarrow> file_entry list \<Rightarrow> bool \<times> file_entry list" where
  "ofstream_open now p fs =
     (case find (\<lambda>e. path e = p) fs of
        Some e \<Rightarrow> (\<not> is_directory e, fs)
      | None \<Rightarrow> (True, fs @ [\<lparr>path = p, status = regular, last_write_time = now,
                               content = [], deletable = True\<rparr>]))"

text \<open>
  The log directory as the logger sees it: whether it exists, whether
  \<^verbatim>\<open>create_directories\<close> can make it, and its entries. \<^verbatim>\<open>isFileExist\<close> of its path
  says whether it exists; the empty path names nothing. \<^verbatim>\<open>create_directories\<close> is
  called for a directory that does not exist: it makes it, with no entry, or throws a
  \<^verbatim>\<open>filesystem_error\<close>, as it does for the empty path.
\<close>

record log_directory =
  exists_dir :: bool
  creatable :: bool
  entries :: "file_entry list"

definition isFileExist :: "string \<Rightarrow> log_directory \<Rightarrow> bool" where
  "isFileExist p d = (p \<noteq> [] \<and> exists_dir d)"

definition create_directories :: "string \<Rightarrow> log_directory \<Rightarrow> exception + log_directory" where
  "create_directories p d =
     (if p = [] \<or> \<not> creatable d then Inl filesystem_error
      else Inr (d\<lparr>exists_dir := True, entries := []\<rparr>))"

subsection \<open>Regular expressions\<close>

text \<open>
  The patterns of this program are sequences of one-character atoms, each with a
  repetition count: \<^verbatim>\<open>\d{4}\<close> is \<open>(Digit, 4)\<close>, \<^verbatim>\<open>[-]\<close> is \<open>(OneOf ''-'', 1)\<close>, and
  \<^verbatim>\<open>.\<close> is any character but a line terminator. \<^verbatim>\<open>std::regex_match\<close> matches the
  whole text. The empty pattern is the empty list.
\<close>

datatype atom = Digit | AnyChar | Lit char | OneOf "char list"

type_synonym regex = "(atom \<times> nat) list"

fun atom_match :: "atom \<Rightarrow> char \<Rightarrow> bool" where
  "atom_match Digit c = isdigit c"
| "atom_match AnyChar c = (c \<noteq> CHR 0x0A \<and> c \<noteq> CHR 0x0D)"
| "atom_match (Lit l) c = (c = l)"
| "atom_match (OneOf cs) c = (c \<in> set cs)"

definition expand :: "regex \<Rightarrow> atom list" where
  "expand r = concat (map (\<lambda>(a, n). replicate n a) r)"

definition regex_match :: "string \<Rightarrow> regex \<Rightarrow> bool" where
  "regex_match s r = list_all2 atom_match (expand r) s"

text \<open>\<^verbatim>\<open>#define LOG_FILE_FORMAT "\\d{4}[-]\\d{2}[-]\\d{2}.log.\\d"\<close>\<close>

definition LOG_FILE_FORMAT :: regex where
  "LOG_FILE_FORMAT =
     [(Digit, 4), (OneOf ''-'', 1), (Digit, 2), (OneOf ''-'', 1), (Digit, 2), (AnyChar, 1),
      (Lit CHR ''l'', 1), (Lit CHR ''o'', 1), (Lit CHR ''g'', 1), (AnyChar, 1), (Digit, 1)]"

subsection \<open>DirectoryWatcher\<close>

text \<open>
  The watcher's fields. \<open>tree\<close> below is what
  \<^verbatim>\<open>recursive_directory_iterator(logDirectory_)\<close> enumerates, in its order. The clock is
  the parameter \<open>now\<close>, in milliseconds. \<^verbatim>\<open>std::chrono::milliseconds(fileExpiration_)\<close>
  reads the \<^verbatim>\<open>unsigned long long\<close> as a signed 64-bit count.
\<close>

record DirectoryWatcher =
  filePattern :: regex
  fileExpiration :: "64 word"
  logDirectory :: string

definition isFileOlderThan :: "int \<Rightarrow> file_entry \<Rightarrow> int \<Rightarrow> bool" where
  "isFileOlderThan now file limit = (now - last_write_time file > limit)"

fun filesOlderThan :: "int \<Rightarrow> file_entry list \<Rightarrow> int \<Rightarrow> regex \<Rightarrow> string list" where
  "filesOlderThan now [] limit fileNameRegex = []"
| "filesOlderThan now (file # tree) limit fileNameRegex =
     (if fileNameRegex \<noteq> [] \<and> \<not> regex_match (filename (path file)) fileNameRegex
      then filesOlderThan now tree limit fileNameRegex
      else if is_regular_file file \<and> isFileOlderThan now file limit
      then path file # filesOlderThan now tree limit fileNameRegex
      else filesOlderThan now tree limit fileNameRegex)"

text \<open>
  The loop of \<^verbatim>\<open>removeOldLogFiles\<close> sits inside one \<^verbatim>\<open>try\<close>: the first exception leaves
  the loop and is reported on \<^verbatim>\<open>std::cerr\<close>. \<open>remove_files\<close> returns the exception that
  ended the loop, if any, and the file system as the loop left it;
  \<open>removeOldLogFiles\<close> returns the lines written to \<^verbatim>\<open>std::cerr\<close> with it.
\<close>

fun remove_files :: "string list \<Rightarrow> file_entry list \<Rightarrow> exception option \<times> file_entry list" where
  "remove_files [] fs = (None, fs)"
| "remove_files (file # filesToRemove) fs =
     (case fs_remove file fs of
        Inl ex \<Rightarrow> (Some ex, fs)
      | Inr fs' \<Rightarrow> remove_files filesToRemove fs')"

definition removeOldLogFiles :: "int \<Rightarrow> DirectoryWatcher \<Rightarrow> file_entry list \<Rightarrow> string list \<times> file_entry list" where
  "removeOldLogFiles now dw tree =
     (let filesToRemove = filesOlderThan now tree (sint (fileExpiration dw)) (filePattern dw) in
      case remove_files filesToRemove tree of
        (None, tree') \<Rightarrow> ([], tree')
      | (Some ex, tree') \<Rightarrow> ([''logcplus: Unexpected error while deleting file''], tree'))"

subsection \<open>FileWatcher\<close>

text \<open>
  The callback is any \<^verbatim>\<open>std::function<void()>\<close>: a transformer of the state of the world
  \<open>'w\<close>. \<open>file_size\<close> reads \<^verbatim>\<open>std::filesystem::file_size(path, errorCode)\<close> from the
  world (all bits set when the call fails). One tick returns how many times it invoked
  the callback and the world it leaves. The test of \<^verbatim>\<open>errorCode\<close> at the top of the
  source comes before anything sets it and never fires.
\<close>

record FileWatcherSettings =
  filePath :: string
  maxFileSize :: FileSize
  checkPoint :: "Time option"

definition isTimeToCallback ::
    "FileWatcherSettings \<Rightarrow> Time \<Rightarrow> ('w \<Rightarrow> 'w) \<Rightarrow> ('w \<Rightarrow> string \<Rightarrow> 64 word) \<Rightarrow> 'w \<Rightarrow> nat \<times> 'w" where
  "isTimeToCallback settings currTime callback file_size w =
     (let (n1, w1) =
            (case checkPoint settings of
               None \<Rightarrow> (0, w)
             | Some cp \<Rightarrow>
                 if hour cp = hour currTime \<and> minute cp = minute currTime
                 then (1, callback w) else (0, w));
          currFileSize = file_size w1 (filePath settings)
      in if currFileSize > bsize (maxFileSize settings)
         then (n1 + 1, callback w1) else (n1, w1))"

subsection \<open>Logger\<close>

datatype LogMode = Console | File

datatype LogLevel = Debug | Info | Warn | Error | Fatal

text \<open>The enumerators' values; \<^verbatim>\<open><=\<close> on the \<^verbatim>\<open>enum class\<close> compares them.\<close>

fun level_value :: "LogLevel \<Rightarrow> nat" where
  "level_value Debug = 0"
| "level_value Info = 1"
| "level_value Warn = 2"
| "level_value Error = 3"
| "level_value Fatal = 4"

text \<open>
  The logger's fields: \<open>fileHandler_open\<close> is \<^verbatim>\<open>fileHandler_.first.is_open()\<close> and
  \<open>fileHandler_path\<close> is \<^verbatim>\<open>fileHandler_.second\<close>. The worker thread is its flag
  \<open>work\<close>.
\<close>

record Logger =
  logMode :: LogMode
  logLevel :: LogLevel
  fileHandler_open :: bool
  fileHandler_path :: string
  messageQueue :: "string ConcurrentQueue"
  work :: bool
  wait :: bool

fun logTypeAsString :: "LogLevel \<Rightarrow> string" where
  "logTypeAsString Info = ''INFO''"
| "logTypeAsString Warn = ''WARN''"
| "logTypeAsString Debug = ''DEBUG''"
| "logTypeAsString Error = ''ERROR''"
| "logTypeAsString Fatal = ''FATAL''"

definition concatenateLogArguments :: "string list \<Rightarrow> string" where
  "concatenateLogArguments args = concat (map (\<lambda>a. '' '' @ a) args)"

text \<open>
  \<^verbatim>\<open>log\<close> formats the line and enqueues it. \<open>now\<close> is what
  \<^verbatim>\<open>currentTime("%Y-%m-%d %X")\<close> returns at the call; the arguments are given by their
  \<^verbatim>\<open>to_string\<close> forms.
\<close>

definition log :: "string \<Rightarrow> LogLevel \<Rightarrow> string list \<Rightarrow> Logger \<Rightarrow> Logger" where
  "log now lvl args lg =
     (let header = ''['' @ logTypeAsString lvl @ '']'' @ '' '' @ now @ '' -'';
          body = concatenateLogArguments args
      in lg\<lparr>messageQueue := enqueue (header @ body) (messageQueue lg)\<rparr>)"




definition error :: "string \<Rightarrow> string list \<Rightarrow> Logger \<Rightarrow> Logger" where
  "error now args lg =
     (if level_value (logLevel lg) \<le> level_value Error then log now Error args lg else lg)"



text \<open>
  \<^verbatim>\<open>addOptionalFileSeparator\<close>; \<open>exists\<close> is the answer of \<^verbatim>\<open>isFileExist(_file)\<close>.
\<close>

definition addOptionalFileSeparator :: "bool \<Rightarrow> string \<Rightarrow> string option" where
  "addOptionalFileSeparator exists file =
     (if \<not> exists then None
      else if file \<noteq> [] \<and> last file \<noteq> CHR ''/'' then Some (file @ ''/'')
      else None)"

text \<open>\<^verbatim>\<open>filename.find(_fileSought) != npos\<close>: the text sought occurs somewhere in the name.\<close>

fun contains_str :: "string \<Rightarrow> string \<Rightarrow> bool" where
  "contains_str [] sought = (sought = [])"
| "contains_str (c # cs) sought = (prefix sought (c # cs) \<or> contains_str cs sought)"

text \<open>
  \<^verbatim>\<open>anyFileExists\<close> counts over \<^verbatim>\<open>directory_iterator(_directory)\<close>: \<open>dir\<close> is the
  list of the directory's entries.
\<close>

fun anyFileExists :: "file_entry list \<Rightarrow> string \<Rightarrow> nat" where
  "anyFileExists [] fileSought = 0"
| "anyFileExists (p # dir) fileSought =
     (if contains_str (filename (path p)) fileSought
      then anyFileExists dir fileSought + 1
      else anyFileExists dir fileSought)"

text \<open>\<^verbatim>\<open>std::to_string\<close> of a count: its decimal digits.\<close>

fun to_string :: "nat \<Rightarrow> string" where
  "to_string n =
     (if n < 10 then [''0123456789'' ! n]
      else to_string (n div 10) @ [''0123456789'' ! (n mod 10)])"

declare to_string.simps [simp del]

definition processQueue :: "Logger \<Rightarrow> Logger" where
  "processQueue lg = (if work lg then lg else lg\<lparr>work := True\<rparr>)"

definition closeHandlers :: "Logger \<Rightarrow> Logger" where
  "closeHandlers lg =
     (if fileHandler_open lg then lg\<lparr>fileHandler_open := False, wait := False\<rparr> else lg)"

text \<open>
  \<^verbatim>\<open>initialize(_logDirectory, _filename)\<close> and \<^verbatim>\<open>reopen(_logDirectory)\<close>, on the logger
  and the log directory. Both first create the directory when \<^verbatim>\<open>isFileExist\<close> says it
  is missing; what \<^verbatim>\<open>create_directories\<close> throws is caught by neither. \<open>today\<close> is
  what \<^verbatim>\<open>currentTime("%Y-%m-%d")\<close> returns, the same at both reads of one call, and
  \<open>now\<close> the time given to a file created by the open. An exception of
  \<^verbatim>\<open>std::filesystem::rename\<close> is not caught in \<^verbatim>\<open>reopen\<close> and leaves it.
\<close>

definition initialize ::
    "int \<Rightarrow> string \<Rightarrow> string \<Rightarrow> Logger \<times> log_directory \<Rightarrow> exception + Logger \<times> log_directory" where
  "initialize now logDir fname st =
     (case st of (lg, d) \<Rightarrow>
        if logMode lg \<noteq> File then Inr (lg, d)
        else
          (case (if \<not> isFileExist logDir d then create_directories logDir d else Inr d) of
             Inl ex \<Rightarrow> Inl ex
           | Inr d1 \<Rightarrow>
               if \<not> fileHandler_open lg then
                 (let logDir' = (case addOptionalFileSeparator (isFileExist logDir d1) logDir of
                                  Some p \<Rightarrow> p | None \<Rightarrow> logDir);
                      fullPath = logDir' @ fname;
                      (opened, fs') = ofstream_open now fullPath (entries d1)
                  in Inr (processQueue (lg\<lparr>fileHandler_open := opened,
                                            fileHandler_path := fullPath, wait := False\<rparr>),
                          d1\<lparr>entries := fs'\<rparr>))
               else Inr (lg\<lparr>wait := False\<rparr>, d1)))"

definition reopen ::
    "string \<Rightarrow> int \<Rightarrow> string \<Rightarrow> Logger \<times> log_directory \<Rightarrow> exception + Logger \<times> log_directory" where
  "reopen today now logDir st =
     (case st of (lg, d) \<Rightarrow>
        if logMode lg \<noteq> File then Inr (lg, d)
        else
          (case (if \<not> isFileExist logDir d then create_directories logDir d else Inr d) of
             Inl ex \<Rightarrow> Inl ex
           | Inr d1 \<Rightarrow>
               (let fname = today @ ''.log'';
                    count = anyFileExists (entries d1) fname;
                    lg1 = closeHandlers lg
                in if count \<noteq> 0 then
                     (let logDir' = (case addOptionalFileSeparator (isFileExist logDir d1) logDir of
                                      Some dir \<Rightarrow> dir | None \<Rightarrow> logDir);
                          fullPath = logDir' @ fname;
                          filenameSufix = ''.'' @ to_string count
                      in case fs_rename fullPath (fullPath @ filenameSufix) (entries d1) of
                           Inl ex \<Rightarrow> Inl ex
                         | Inr fs' \<Rightarrow>
                             initialize now logDir' (today @ ''.log'') (lg1, d1\<lparr>entries := fs'\<rparr>))
                   else initialize now logDir (today @ ''.log'') (lg1, d1))))"

subsection \<open>EMap\<close>

text \<open>
  A \<^verbatim>\<open>std::any\<close> of this program holds an \<^verbatim>\<open>int\<close>, a \<^verbatim>\<open>bool\<close>, a \<^verbatim>\<open>std::string\<close> or,
  where \<^verbatim>\<open>contains\<close> returns \<^verbatim>\<open>std::nullopt\<close> as a \<^verbatim>\<open>std::any\<close>, a
  \<^verbatim>\<open>std::nullopt_t\<close>; or it is empty. Only the empty one has no value.
\<close>

datatype any = AnyInt int | AnyBool bool | AnyString string | AnyNullopt | AnyEmpty

definition has_value :: "any \<Rightarrow> bool" where
  "has_value a = (a \<noteq> AnyEmpty)"

definition any_cast_string :: "any \<Rightarrow> exception + string" where
  "any_cast_string a = (case a of AnyString s \<Rightarrow> Inr s | _ \<Rightarrow> Inl bad_any_cast)"

definition any_cast_bool :: "any \<Rightarrow> exception + bool" where
  "any_cast_bool a = (case a of AnyBool b \<Rightarrow> Inr b | _ \<Rightarrow> Inl bad_any_cast)"

type_synonym EMap = "(string \<times> any) list"

definition containsKey :: "EMap \<Rightarrow> string \<Rightarrow> bool" where
  "containsKey values key = (map_of values key \<noteq> None)"

definition EMap_set :: "string \<Rightarrow> any \<Rightarrow> EMap \<Rightarrow> EMap" where
  "EMap_set key val values = map (\<lambda>(k, v). if k = key then (k, val) else (k, v)) values"

definition EMap_add :: "string \<Rightarrow> any \<Rightarrow> EMap \<Rightarrow> EMap" where
  "EMap_add key val values =
     (if containsKey values key then EMap_set key val values else values @ [(key, val)])"

definition EMap_get :: "EMap \<Rightarrow> string \<Rightarrow> any" where
  "EMap_get values key = (case map_of values key of Some v \<Rightarrow> v | None \<Rightarrow> AnyEmpty)"

definition tolower :: "char \<Rightarrow> char" where
  "tolower c =
     (case map_of (zip ''ABCDEFGHIJKLMNOPQRSTUVWXYZ'' ''abcdefghijklmnopqrstuvwxyz'') c of
        Some l \<Rightarrow> l | None \<Rightarrow> c)"

definition isNumber :: "string \<Rightarrow> bool" where
  "isNumber str = (str \<noteq> [] \<and> list_all isdigit str)"

definition isBool :: "string \<Rightarrow> bool" where
  "isBool str = (map tolower str = ''true'' \<or> map tolower str = ''false'')"

definition toBool :: "string \<Rightarrow> exception + bool" where
  "toBool str =
     (if map tolower str = ''true'' then Inr True
      else if map tolower str = ''false'' then Inr False
      else Inl invalid_argument)"

text \<open>
  \<^verbatim>\<open>read\<close> takes the whitespace-separated words of the file two at a time, as
  \<^verbatim>\<open>ifs >> key >> value\<close> does. Its \<^verbatim>\<open>catch\<close> is for stream failures only: what
  \<^verbatim>\<open>std::stoi\<close> throws leaves it.
\<close>

fun EMap_read :: "string list \<Rightarrow> EMap \<Rightarrow> exception + EMap" where
  "EMap_read (key # val # rest) values =
     (if isNumber val then
        (case stoi val of
           Inl ex \<Rightarrow> Inl ex
         | Inr n \<Rightarrow> EMap_read rest (EMap_add key (AnyInt n) values))
      else if isBool val then
        (case toBool val of
           Inl ex \<Rightarrow> Inl ex
         | Inr b \<Rightarrow> EMap_read rest (EMap_add key (AnyBool b) values))
      else EMap_read rest (EMap_add key (AnyString val) values))"
| "EMap_read words values = Inr values"

subsection \<open>LoggerConfigurator\<close>

record LoggerConfiguration =
  logDirectoryPath :: string
  maxLogFileSize :: FileSize
  removeLogsOlderThan :: "64 word"
  logLevel_cfg :: LogLevel
  logMode_cfg :: LogMode
  checkPoint_cfg :: "Time option"
  enableFileWatcher :: bool
  enableAutoRemove :: bool

text \<open>The member initialisers; \<open>cwd\<close> is \<^verbatim>\<open>std::filesystem::current_path()\<close>.\<close>

definition default_configuration :: "string \<Rightarrow> LoggerConfiguration" where
  "default_configuration cwd =
     \<lparr>logDirectoryPath = cwd, maxLogFileSize = \<lparr>size_v = 50, unit_v = MB\<rparr>,
      removeLogsOlderThan = 0, logLevel_cfg = Debug, logMode_cfg = Console,
      checkPoint_cfg = None, enableFileWatcher = False, enableAutoRemove = False\<rparr>"

text \<open>
  \<^verbatim>\<open>contains\<close> returns a \<^verbatim>\<open>std::any\<close>; its last line, \<^verbatim>\<open>return std::nullopt;\<close>, makes
  a \<^verbatim>\<open>std::any\<close> that holds a \<^verbatim>\<open>std::nullopt_t\<close>.
\<close>

definition contains :: "EMap \<Rightarrow> string \<Rightarrow> any" where
  "contains emap key =
     (if containsKey emap key \<and> has_value (EMap_get emap key) then EMap_get emap key
      else AnyNullopt)"

definition parseMaxLogFileSize :: "string \<Rightarrow> string list \<times> FileSize option" where
  "parseMaxLogFileSize val =
     (case parseFileSize val of
        (lines, Some fileSize) \<Rightarrow> (lines, Some fileSize)
      | (lines, None) \<Rightarrow> (lines, None))"

text \<open>
  The pattern \<^verbatim>\<open>^(\d*)(S|M|H|d|w|m|y)$\<close> matches a text that ends in one of the seven
  letters with only digits before it; the first group is those digits, possibly none.
  What \<^verbatim>\<open>std::stoull\<close> throws is not caught here.
\<close>

definition parseRemoveLogsOlderThan :: "string \<Rightarrow> exception + 64 word" where
  "parseRemoveLogsOlderThan val =
     (if val \<noteq> [] \<and> list_all isdigit (butlast val) \<and> last val \<in> set ''SMHdwmy'' then
        (let unit = last val;
             millis = (if unit = CHR ''S'' then 1000
                       else if unit = CHR ''M'' then 60000
                       else if unit = CHR ''H'' then 3600000
                       else if unit = CHR ''d'' then 86400000
                       else if unit = CHR ''w'' then 604800000
                       else if unit = CHR ''m'' then 2629746000
                       else 31556952000)
         in case stoull (butlast val) of
              Inl ex \<Rightarrow> Inl ex
            | Inr n \<Rightarrow> Inr (n * millis))
      else Inr 0)"

definition parseLogLevel :: "string \<Rightarrow> LogLevel option" where
  "parseLogLevel val =
     (let v = map tolower val in
      if v = ''debug'' then Some Debug
      else if v = ''info'' then Some Info
      else if v = ''warn'' then Some Warn
      else if v = ''error'' then Some Error
      else if v = ''fatal'' then Some Fatal
      else None)"

definition parseLogMode :: "string \<Rightarrow> LogMode option" where
  "parseLogMode val =
     (let v = map tolower val in
      if v = ''console'' then Some Console
      else if v = ''file'' then Some File
      else None)"

text \<open>
  \<^verbatim>\<open>ss >> temp\<close> for an \<^verbatim>\<open>int\<close>: leading white space is skipped, then a sign and
  digits are read; with no digit, or a value outside \<^verbatim>\<open>int\<close>, the extraction fails and
  the loop of \<^verbatim>\<open>parseCheckPoint\<close> ends. \<open>read_int\<close> returns the value and the rest of
  the stream.
\<close>

definition isspace :: "char \<Rightarrow> bool" where
  "isspace c = (c \<in> set [CHR '' '', CHR 0x09, CHR 0x0A, CHR 0x0B, CHR 0x0C, CHR 0x0D])"

definition read_int :: "string \<Rightarrow> (int \<times> string) option" where
  "read_int s =
     (let s1 = dropWhile isspace s;
          neg = (s1 \<noteq> [] \<and> hd s1 = CHR ''-'');
          s2 = (if s1 \<noteq> [] \<and> (hd s1 = CHR ''-'' \<or> hd s1 = CHR ''+'') then tl s1 else s1);
          ds = takeWhile isdigit s2;
          v = (if neg then - int (decimal ds) else int (decimal ds))
      in if ds = [] \<or> v > 2147483647 \<or> v < - 2147483648 then None
         else Some (v, dropWhile isdigit s2))"

function read_ints :: "string \<Rightarrow> int list" where
  "read_ints s =
     (case read_int s of
        None \<Rightarrow> []
      | Some (temp, rest) \<Rightarrow> (if temp \<ge> 0 then [temp] else []) @ read_ints rest)"
  by pat_completeness auto
termination
proof (relation "measure length")
  show "wf (measure length)" by simp
next
  fix s :: string and x2 temp rest
  assume r: "read_int s = Some x2" and x: "(temp, rest) = x2"
  define s1 where "s1 = dropWhile isspace s"
  define s2 where "s2 = (if s1 \<noteq> [] \<and> (hd s1 = CHR ''-'' \<or> hd s1 = CHR ''+'') then tl s1 else s1)"
  from r x have ne: "takeWhile isdigit s2 \<noteq> []" and rest: "rest = dropWhile isdigit s2"
    by (auto simp: read_int_def Let_def s1_def s2_def split: if_splits)
  have "length (takeWhile isdigit s2) + length (dropWhile isdigit s2) = length s2"
    by (metis length_append takeWhile_dropWhile_id)
  with ne have "length rest < length s2" using rest by (cases "takeWhile isdigit s2") auto
  moreover have "length s2 \<le> length s1" by (simp add: s2_def)
  moreover have "length s1 \<le> length s" by (simp add: s1_def length_dropWhile_le)
  ultimately show "(rest, s) \<in> measure length" by simp
qed

definition parseCheckPoint :: "string \<Rightarrow> Time option" where
  "parseCheckPoint val =
     (let array = read_ints (map (\<lambda>c. if c = CHR '':'' then CHR '' '' else c) val) in
      if length array > 1 \<and> array ! 0 < 24 \<and> array ! 1 < 60
      then Some \<lparr>hour = array ! 0, minute = array ! 1, second = 0\<rparr>
      else None)"

text \<open>
  \<^verbatim>\<open>load\<close>. The state of the \<^verbatim>\<open>try\<close> block is the configuration built so far and
  the lines written to \<^verbatim>\<open>std::cerr\<close>. Each key is one step; a step that throws leaves
  the state as the earlier steps made it. The \<^verbatim>\<open>catch\<close> takes \<^verbatim>\<open>std::bad_any_cast\<close>
  only: it reports and the configuration built so far is returned; any other exception
  leaves \<^verbatim>\<open>load\<close>.
\<close>

type_synonym load_state = "LoggerConfiguration \<times> string list"

definition unexpected_option :: "string \<Rightarrow> string" where
  "unexpected_option castedValue = ''logcplus: Unexpected configuration option: '' @ castedValue"

definition load_LogDirectoryPath :: "EMap \<Rightarrow> load_state \<Rightarrow> exception + load_state" where
  "load_LogDirectoryPath mapController st =
     (case st of (config, cerr) \<Rightarrow>
        let optValue = contains mapController ''LogDirectoryPath'' in
        if has_value optValue then
          (case any_cast_string optValue of
             Inl ex \<Rightarrow> Inl ex
           | Inr castedValue \<Rightarrow> Inr (config\<lparr>logDirectoryPath := castedValue\<rparr>, cerr))
        else Inr st)"

definition load_MaxLogFileSize :: "EMap \<Rightarrow> load_state \<Rightarrow> exception + load_state" where
  "load_MaxLogFileSize mapController st =
     (case st of (config, cerr) \<Rightarrow>
        let optValue = contains mapController ''MaxLogFileSize'' in
        if has_value optValue then
          (case any_cast_string optValue of
             Inl ex \<Rightarrow> Inl ex
           | Inr castedValue \<Rightarrow>
               (case parseMaxLogFileSize castedValue of
                  (lines, Some result) \<Rightarrow> Inr (config\<lparr>maxLogFileSize := result\<rparr>, cerr @ lines)
                | (lines, None) \<Rightarrow>
                    Inr (config, cerr @ lines @ [unexpected_option castedValue])))
        else Inr st)"

definition load_RemoveLogsOlderThan :: "EMap \<Rightarrow> load_state \<Rightarrow> exception + load_state" where
  "load_RemoveLogsOlderThan mapController st =
     (case st of (config, cerr) \<Rightarrow>
        let optValue = contains mapController ''RemoveLogsOlderThan'' in
        if has_value optValue then
          (case any_cast_string optValue of
             Inl ex \<Rightarrow> Inl ex
           | Inr castedValue \<Rightarrow>
               (case parseRemoveLogsOlderThan castedValue of
                  Inl ex \<Rightarrow> Inl ex
                | Inr v \<Rightarrow>
                    if v \<noteq> 0 then Inr (config\<lparr>removeLogsOlderThan := v\<rparr>, cerr)
                    else Inr (config, cerr @ [unexpected_option castedValue])))
        else Inr st)"

definition load_LogLevel :: "EMap \<Rightarrow> load_state \<Rightarrow> exception + load_state" where
  "load_LogLevel mapController st =
     (case st of (config, cerr) \<Rightarrow>
        let optValue = contains mapController ''LogLevel'' in
        if has_value optValue then
          (case any_cast_string optValue of
             Inl ex \<Rightarrow> Inl ex
           | Inr castedValue \<Rightarrow>
               (case parseLogLevel castedValue of
                  Some result \<Rightarrow> Inr (config\<lparr>logLevel_cfg := result\<rparr>, cerr)
                | None \<Rightarrow> Inr (config, cerr @ [unexpected_option castedValue])))
        else Inr st)"

definition load_LogMode :: "EMap \<Rightarrow> load_state \<Rightarrow> exception + load_state" where
  "load_LogMode mapController st =
     (case st of (config, cerr) \<Rightarrow>
        let optValue = contains mapController ''LogMode'' in
        if has_value optValue then
          (case any_cast_string optValue of
             Inl ex \<Rightarrow> Inl ex
           | Inr castedValue \<Rightarrow>
               (case parseLogMode castedValue of
                  Some result \<Rightarrow> Inr (config\<lparr>logMode_cfg := result\<rparr>, cerr)
                | None \<Rightarrow> Inr (config, cerr @ [unexpected_option castedValue])))
        else Inr st)"

definition load_CheckPoint :: "EMap \<Rightarrow> load_state \<Rightarrow> exception + load_state" where
  "load_CheckPoint mapController st =
     (case st of (config, cerr) \<Rightarrow>
        let optValue = contains mapController ''CheckPoint'' in
        if has_value optValue then
          (case any_cast_string optValue of
             Inl ex \<Rightarrow> Inl ex
           | Inr castedValue \<Rightarrow>
               (case parseCheckPoint castedValue of
                  Some result \<Rightarrow> Inr (config\<lparr>checkPoint_cfg := Some result\<rparr>, cerr)
                | None \<Rightarrow> Inr (config, cerr @ [unexpected_option castedValue])))
        else Inr st)"

definition load_EnableFileWatcher :: "EMap \<Rightarrow> load_state \<Rightarrow> exception + load_state" where
  "load_EnableFileWatcher mapController st =
     (case st of (config, cerr) \<Rightarrow>
        let optValue = contains mapController ''EnableFileWatcher'' in
        if has_value optValue then
          (case any_cast_bool optValue of
             Inl ex \<Rightarrow> Inl ex
           | Inr b \<Rightarrow> Inr (config\<lparr>enableFileWatcher := b\<rparr>, cerr))
        else Inr st)"

definition load_EnableAutoRemove :: "EMap \<Rightarrow> load_state \<Rightarrow> exception + load_state" where
  "load_EnableAutoRemove mapController st =
     (case st of (config, cerr) \<Rightarrow>
        let optValue = contains mapController ''EnableAutoRemove'' in
        if has_value optValue then
          (case any_cast_bool optValue of
             Inl ex \<Rightarrow> Inl ex
           | Inr b \<Rightarrow> Inr (config\<lparr>enableAutoRemove := b\<rparr>, cerr))
        else Inr st)"

fun try_steps :: "(load_state \<Rightarrow> exception + load_state) list \<Rightarrow> load_state \<Rightarrow> exception + load_state" where
  "try_steps [] st = Inr st"
| "try_steps (step # steps) st =
     (case step st of
        Inl ex \<Rightarrow>
          if ex = bad_any_cast
          then Inr (fst st, snd st @ [''logcplus: Unexpected error when parsing configuration file''])
          else Inl ex
      | Inr st' \<Rightarrow> try_steps steps st')"

text \<open>\<open>file\<close> is the list of the words of the configuration file.\<close>

definition load :: "string \<Rightarrow> string list \<Rightarrow> exception + load_state" where
  "load cwd file =
     (let config = default_configuration cwd in
      case EMap_read file [] of
        Inl ex \<Rightarrow> Inl ex
      | Inr mapController \<Rightarrow>
          if length mapController > 0 then
            try_steps
              [load_LogDirectoryPath mapController, load_MaxLogFileSize mapController,
               load_RemoveLogsOlderThan mapController, load_LogLevel mapController,
               load_LogMode mapController, load_CheckPoint mapController,
               load_EnableFileWatcher mapController, load_EnableAutoRemove mapController]
              (config, [])
          else Inr (config, []))"

section \<open>Properties\<close>

subsection \<open>The record queue\<close>

lemma run_ops_fifo:
  "run_ops ops q = Some (outs, q') \<Longrightarrow> outs @ q' = q @ enqueued ops"
proof (induction ops arbitrary: q outs q')
  case Nil
  then show ?case by simp
next
  case (Cons op ops)
  show ?case
  proof (cases op)
    case (Enqueue x)
    with Cons.prems have "run_ops ops (q @ [x]) = Some (outs, q')"
      by (simp add: enqueue_def)
    from Cons.IH [OF this] show ?thesis using Enqueue by simp
  next
    case Dequeue
    with Cons.prems obtain x xs outs' where q: "q = x # xs"
      and r: "run_ops ops xs = Some (outs', q')" and o: "outs = x # outs'"
      by (auto simp: dequeue_def split: list.splits option.splits)
    from Cons.IH [OF r] show ?thesis using Dequeue q o by simp
  qed
qed

text \<open>
  Claim C6. \<^verbatim>\<open>enqueue\<close> always succeeds: it appends the item and the queue grows by
  one, whatever its length. A \<^verbatim>\<open>dequeue\<close> on a non-empty queue removes and returns the
  head. Over any sequence of calls that returns, the items returned, followed by the
  items still queued, are the items that were in the queue followed by the items
  enqueued, in the order of their enqueueing: strict FIFO.
\<close>

theorem queue_fifo:
  "enqueue x q = q @ [x] \<and> length_queue (enqueue x q) = length_queue q + 1
   \<and> (q \<noteq> [] \<longrightarrow> dequeue q = Some (hd q, tl q))
   \<and> (run_ops ops q = Some (outs, q') \<longrightarrow> outs @ q' = q @ enqueued ops)"
  using run_ops_fifo [of ops q outs q']
  by (cases q) (simp_all add: enqueue_def dequeue_def length_queue_def)

theorem queue_fifo_witness:
  "[5::nat] \<noteq> [] \<and> dequeue [5::nat] = Some (5, [])
   \<and> run_ops [Enqueue 1, Enqueue 2, Dequeue, Enqueue 3, Dequeue] [] = Some ([1, 2::nat], [3])
   \<and> [1, 2] @ [3] = [] @ enqueued [Enqueue 1, Enqueue 2, Dequeue, Enqueue 3, Dequeue :: nat queue_op]"
  using queue_fifo [of 7 "[5::nat]" "[]" "[]" "[5]"]
    queue_fifo [of 7 "[]::nat list" "[Enqueue 1, Enqueue 2, Dequeue, Enqueue 3, Dequeue]" "[1, 2]" "[3]"]
  by (simp add: enqueue_def dequeue_def)

text \<open>
  Claim C10. \<^verbatim>\<open>take\<close> needs a non-empty queue: on every non-empty queue it returns the
  head and leaves the queue as it was; on the empty queue it has no defined result.
\<close>

theorem take_needs_nonempty:
  "(q \<noteq> [] \<longrightarrow> take_queue q = Some (hd q, q)) \<and> take_queue ([] :: 'a list) = None"
  by (cases q) (simp_all add: take_queue_def)

theorem take_needs_nonempty_witness:
  "[4::nat, 5] \<noteq> [] \<and> take_queue [4::nat, 5] = Some (4, [4, 5]) \<and> take_queue ([] :: nat list) = None"
  using take_needs_nonempty [of "[4::nat, 5]"] by simp

subsection \<open>Parsing a file size\<close>

lemma takeWhile_all: "list_all P s \<Longrightarrow> takeWhile P s = s"
  by (induction s) auto

text \<open>
  Claim C9. On every text made of digits only, the empty text included,
  \<^verbatim>\<open>parseFileSize\<close> returns a value, the default file size of 1 byte (size 1, unit B):
  the digits are ignored, and the text is neither rejected nor read as a number of bytes.
  Nothing is written to \<^verbatim>\<open>std::cerr\<close>.
\<close>

theorem parseFileSize_digits_only:
  "list_all isdigit s \<Longrightarrow>
     parseFileSize s = ([], Some \<lparr>size_v = 1, unit_v = B\<rparr>) \<and> bsize \<lparr>size_v = 1, unit_v = B\<rparr> = 1"
  by (simp add: parseFileSize_def takeWhile_all FileSize_default_def bsize_def)

theorem parseFileSize_digits_only_witness:
  "list_all isdigit ''1024'' \<and> parseFileSize ''1024'' = ([], Some \<lparr>size_v = 1, unit_v = B\<rparr>)
   \<and> list_all isdigit [] \<and> parseFileSize [] = ([], Some \<lparr>size_v = 1, unit_v = B\<rparr>)"
  using parseFileSize_digits_only [of "''1024''"] parseFileSize_digits_only [of "[]"]
  by (simp add: isdigit_def)

subsection \<open>The level filter\<close>




subsection \<open>One tick of the file watcher\<close>

text \<open>
  What a tick does: when the checkpoint is set and its hour and minute are the
  current ones, the callback runs, and the size is then read from the world the
  callback left; the callback runs once more when that size exceeds the threshold.
\<close>

lemma isTimeToCallback_cases:
  "fst (isTimeToCallback s t cb fsz w) \<le> 2
   \<and> ((\<exists>cp. checkPoint s = Some cp \<and> hour cp = hour t \<and> minute cp = minute t) \<longrightarrow>
        isTimeToCallback s t cb fsz w =
          (if fsz (cb w) (filePath s) > bsize (maxFileSize s) then (2, cb (cb w)) else (1, cb w)))
   \<and> (\<not> (\<exists>cp. checkPoint s = Some cp \<and> hour cp = hour t \<and> minute cp = minute t) \<longrightarrow>
        isTimeToCallback s t cb fsz w =
          (if fsz w (filePath s) > bsize (maxFileSize s) then (1, cb w) else (0, w)))"
  by (cases "checkPoint s") (auto simp: isTimeToCallback_def Let_def)

text \<open>
  Claim C1. The claim wants the size check skipped in a tick whose checkpoint fires,
  and at most one invocation per tick. At a checkpoint of 12:30, a tick at 12:30:17,
  a threshold of 50 MB and a watched file that still measures 60,000,000 bytes after
  the first invocation, the code invokes the callback twice in the one tick: the world
  here counts the invocations.
\<close>

theorem isTimeToCallback_invokes_twice:
  "isTimeToCallback
     \<lparr>filePath = ''/var/log/app/2024-01-01.log'', maxFileSize = \<lparr>size_v = 50, unit_v = MB\<rparr>,
      checkPoint = Some \<lparr>hour = 12, minute = 30, second = 0\<rparr>\<rparr>
     \<lparr>hour = 12, minute = 30, second = 17\<rparr> Suc (\<lambda>w p. 60000000) 0 = (2, 2)"
  by (simp add: isTimeToCallback_def bsize_def)

subsection \<open>The retention sweep\<close>

lemma expand_LOG_FILE_FORMAT:
  "expand LOG_FILE_FORMAT =
     [Digit, Digit, Digit, Digit, OneOf ''-'', Digit, Digit, OneOf ''-'', Digit, Digit, AnyChar,
      Lit CHR ''l'', Lit CHR ''o'', Lit CHR ''g'', AnyChar, Digit]"
  by (simp add: expand_def LOG_FILE_FORMAT_def numeral_eq_Suc)







lemma find_filter_keep:
  "(\<And>x. P x \<Longrightarrow> Q x) \<Longrightarrow> find P (filter Q xs) = find P xs"
  by (induction xs) auto

lemma remove_files_append:
  "remove_files (xs @ ys) fs =
     (case remove_files xs fs of
        (None, fs') \<Rightarrow> remove_files ys fs'
      | (Some ex, fs') \<Rightarrow> (Some ex, fs'))"
  by (induction xs arbitrary: fs) (auto split: sum.splits)

lemma remove_files_all_deletable:
  "\<forall>e\<in>set fs. path e \<in> set xs \<longrightarrow> deletable e \<Longrightarrow>
     remove_files xs fs = (None, filter (\<lambda>e. path e \<notin> set xs) fs)"
proof (induction xs arbitrary: fs)
  case Nil
  then show ?case by simp
next
  case (Cons x xs)
  have ok: "fs_remove x fs = Inr (filter (\<lambda>e. path e \<noteq> x) fs)"
  proof (cases "find (\<lambda>e. path e = x) fs")
    case None
    then have "\<forall>e\<in>set fs. path e \<noteq> x" by (simp add: find_None_iff)
    then have "filter (\<lambda>e. path e \<noteq> x) fs = fs" by (simp add: filter_id_conv)
    with None show ?thesis by (simp add: fs_remove_def)
  next
    case (Some e)
    then have "e \<in> set fs" "path e = x" by (auto simp: find_Some_iff)
    with Cons.prems have "deletable e" by simp
    with Some show ?thesis by (simp add: fs_remove_def)
  qed
  have "\<forall>e\<in>set (filter (\<lambda>e. path e \<noteq> x) fs). path e \<in> set xs \<longrightarrow> deletable e"
    using Cons.prems by auto
  from Cons.IH [OF this] ok show ?case by (simp add: conj_commute)
qed

lemma name_1: "filename ''/logs/2024-01-01.log.1'' = ''2024-01-01.log.1''"
  by (simp add: filename_def)
lemma name_2: "filename ''/logs/2024-01-01.log.2'' = ''2024-01-01.log.2''"
  by (simp add: filename_def)
lemma match_1: "regex_match ''2024-01-01.log.1'' LOG_FILE_FORMAT"
  by (simp add: regex_match_def expand_LOG_FILE_FORMAT isdigit_def)
lemma match_2: "regex_match ''2024-01-01.log.2'' LOG_FILE_FORMAT"
  by (simp add: regex_match_def expand_LOG_FILE_FORMAT isdigit_def)
lemma LOG_FILE_FORMAT_nonempty: "LOG_FILE_FORMAT \<noteq> []"
  by (simp add: LOG_FILE_FORMAT_def)







text \<open>
  What a failed deletion does to a sweep: when the files selected are \<open>before\<close>, then
  \<open>f\<close>, then \<open>after\<close>, the files of \<open>before\<close> can be deleted and deleting \<open>f\<close>
  throws, one line is written to \<^verbatim>\<open>std::cerr\<close>, the files of \<open>before\<close> are gone and
  every other file is where it was.
\<close>

lemma sweep_stops_at_failure:
  assumes sel: "filesOlderThan now tree (sint (fileExpiration dw)) (filePattern dw) = before @ f # after"
    and ok: "\<forall>x\<in>set tree. path x \<in> set before \<longrightarrow> deletable x"
    and bad: "find (\<lambda>x. path x = f) tree = Some e" "\<not> deletable e"
    and nb: "f \<notin> set before"
  shows "removeOldLogFiles now dw tree =
           ([''logcplus: Unexpected error while deleting file''],
            filter (\<lambda>x. path x \<notin> set before) tree)
         \<and> (\<forall>x\<in>set tree. path x \<notin> set before \<longrightarrow> x \<in> set (snd (removeOldLogFiles now dw tree)))"
proof -
  let ?fs = "filter (\<lambda>x. path x \<notin> set before) tree"
  have b: "remove_files before tree = (None, ?fs)"
    by (rule remove_files_all_deletable [OF ok])
  have "find (\<lambda>x. path x = f) ?fs = find (\<lambda>x. path x = f) tree"
    by (rule find_filter_keep) (use nb in auto)
  with bad(1) have "find (\<lambda>x. path x = f) ?fs = Some e" by simp
  with bad(2) have "fs_remove f ?fs = Inl filesystem_error"
    by (simp add: fs_remove_def)
  then have "remove_files (f # after) ?fs = (Some filesystem_error, ?fs)" by simp
  with b have "remove_files (before @ f # after) tree = (Some filesystem_error, ?fs)"
    by (simp add: remove_files_append)
  with sel have r: "removeOldLogFiles now dw tree =
      ([''logcplus: Unexpected error while deleting file''], ?fs)"
    by (simp add: removeOldLogFiles_def)
  then show ?thesis by simp
qed

text \<open>
  Claim C4. A failed deletion is to be reported and the remaining files of the same
  sweep are still to be processed. The loop of \<^verbatim>\<open>removeOldLogFiles\<close> is inside one
  \<^verbatim>\<open>try\<close>, so the code does not do that: in a sweep that selects two expired rotated
  files, of which the first cannot be deleted and the second can, the failure is
  reported once and the second file is still there afterwards.
\<close>

theorem removeOldLogFiles_aborts:
  "filesOlderThan 100000
     [\<lparr>path = ''/logs/2024-01-01.log.1'', status = regular, last_write_time = 0,
       content = [], deletable = False\<rparr>,
      \<lparr>path = ''/logs/2024-01-01.log.2'', status = regular, last_write_time = 0,
       content = [], deletable = True\<rparr>]
     (sint (1000 :: 64 word)) LOG_FILE_FORMAT
   = [''/logs/2024-01-01.log.1'', ''/logs/2024-01-01.log.2'']
   \<and> removeOldLogFiles 100000
     \<lparr>filePattern = LOG_FILE_FORMAT, fileExpiration = 1000, logDirectory = ''/logs''\<rparr>
     [\<lparr>path = ''/logs/2024-01-01.log.1'', status = regular, last_write_time = 0,
       content = [], deletable = False\<rparr>,
      \<lparr>path = ''/logs/2024-01-01.log.2'', status = regular, last_write_time = 0,
       content = [], deletable = True\<rparr>]
   = ([''logcplus: Unexpected error while deleting file''],
      [\<lparr>path = ''/logs/2024-01-01.log.1'', status = regular, last_write_time = 0,
        content = [], deletable = False\<rparr>,
       \<lparr>path = ''/logs/2024-01-01.log.2'', status = regular, last_write_time = 0,
        content = [], deletable = True\<rparr>])"
  by (simp add: removeOldLogFiles_def name_1 name_2 match_1 match_2 LOG_FILE_FORMAT_nonempty
      isFileOlderThan_def fs_remove_def is_regular_file_def)




subsection \<open>Loading the configuration\<close>

lemma takeWhile_digits_unit:
  "list_all isdigit ds \<Longrightarrow> u \<noteq> [] \<Longrightarrow> \<not> isdigit (hd u) \<Longrightarrow> takeWhile isdigit (ds @ u) = ds"
  by (cases u) (simp_all add: takeWhile_append2 list_all_iff)

lemma parseFileSize_unknown_unit:
  assumes ds: "ds \<noteq> []" "list_all isdigit ds" and u: "u \<noteq> []" "\<not> isdigit (hd u)"
    and unk: "u \<notin> set [''B'', ''KB'', ''KiB'', ''MB'', ''MiB'', ''GB'', ''GiB'']"
  shows "snd (parseFileSize (ds @ u)) = None"
proof -
  have tw: "takeWhile isdigit (ds @ u) = ds"
    by (rule takeWhile_digits_unit [OF ds(2) u])
  from unk have pu: "parse_unit u = None" by (simp add: parse_unit_def)
  show ?thesis using ds(1) u(1)
    by (simp add: parseFileSize_def tw pu split: sum.splits)
qed

lemma parseRemoveLogsOlderThan_unknown_unit:
  assumes ds: "list_all isdigit ds" and u: "u \<noteq> []" "\<not> isdigit (hd u)"
    and unk: "u \<notin> set [''S'', ''M'', ''H'', ''d'', ''w'', ''m'', ''y'']"
  shows "parseRemoveLogsOlderThan (ds @ u) = Inr 0"
proof (cases u)
  case Nil
  with u show ?thesis by simp
next
  case (Cons c cs)
  show ?thesis
  proof (cases cs rule: rev_cases)
    case Nil
    with Cons unk have "c \<notin> set ''SMHdwmy''" by auto
    with Cons Nil show ?thesis by (simp add: parseRemoveLogsOlderThan_def)
  next
    case (snoc cs' l)
    with Cons have "butlast (ds @ u) = ds @ c # cs'" by (simp add: butlast_append)
    moreover from Cons u have "\<not> isdigit c" by simp
    ultimately have "\<not> list_all isdigit (butlast (ds @ u))" by simp
    then show ?thesis by (simp add: parseRemoveLogsOlderThan_def)
  qed
qed

lemma dec_100: "decimal ''100'' = 100" by (simp add: decimal_def digit_value_def)
lemma dec_2: "decimal ''2'' = 2" by (simp add: decimal_def digit_value_def)
lemma dec_50: "decimal ''50'' = 50" by (simp add: decimal_def digit_value_def)

lemma parse_100MiB: "parseFileSize ''100MiB'' = ([], Some \<lparr>size_v = 100, unit_v = MiB\<rparr>)"
  by (simp add: parseFileSize_def isdigit_def stoi_def dec_100 parse_unit_def)

lemma parse_50MB: "parseFileSize ''50MB'' = ([], Some \<lparr>size_v = 50, unit_v = MB\<rparr>)"
  by (simp add: parseFileSize_def isdigit_def stoi_def dec_50 parse_unit_def)

lemma parse_XB: "parseFileSize ''XB'' = ([], Some \<lparr>size_v = 1, unit_v = B\<rparr>)"
  by (simp add: parseFileSize_def isdigit_def FileSize_default_def)

lemma parse_100XB: "parseFileSize ''100XB'' = ([], None)"
  by (simp add: parseFileSize_def isdigit_def stoi_def dec_100 parse_unit_def)

lemma dec_overflow: "decimal ''99999999999'' = 99999999999"
  by (simp add: decimal_def digit_value_def)

lemma parse_overflow:
  "parseFileSize ''99999999999XB'' = ([''logcplus: Cannot parse file size, reason: stoi''], None)"
  by (simp add: parseFileSize_def isdigit_def stoi_def dec_overflow)

lemma parse_2d: "parseRemoveLogsOlderThan ''2d'' = Inr 172800000"
  by (simp add: parseRemoveLogsOlderThan_def isdigit_def stoull_def dec_2)

lemma parse_d: "parseRemoveLogsOlderThan ''d'' = Inl invalid_argument"
  by (simp add: parseRemoveLogsOlderThan_def stoull_def)

lemma parse_no_digits:
  "c \<in> set ''SMHdwmy'' \<Longrightarrow> parseRemoveLogsOlderThan [c] = Inl invalid_argument"
  by (simp add: parseRemoveLogsOlderThan_def stoull_def Let_def)

lemma read_int_11_45: "read_int ''11 45'' = Some (11, '' 45'')"
  by (simp add: read_int_def isspace_def isdigit_def decimal_def digit_value_def)
lemma read_int_45: "read_int '' 45'' = Some (45, [])"
  by (simp add: read_int_def isspace_def isdigit_def decimal_def digit_value_def)
lemma read_int_nil: "read_int [] = None"
  by (simp add: read_int_def)

lemma parseCheckPoint_11_45:
  "parseCheckPoint ''11:45'' = Some \<lparr>hour = 11, minute = 45, second = 0\<rparr>"
  by (simp add: parseCheckPoint_def read_ints.simps [of "''11 45''"] read_ints.simps [of "'' 45''"]
      read_ints.simps [of "[]"] read_int_11_45 read_int_45 read_int_nil)

lemma parseLogLevel_Warn: "parseLogLevel ''Warn'' = Some Warn"
  by (simp add: parseLogLevel_def tolower_def)

lemma parseLogMode_File: "parseLogMode ''File'' = Some File"
  by (simp add: parseLogMode_def tolower_def)

lemma isBool_true: "isBool ''true''"
  by (simp add: isBool_def tolower_def)

lemma toBool_true: "toBool ''true'' = Inr True"
  by (simp add: toBool_def tolower_def)

lemma not_number:
  "\<not> isNumber ''/var/log/app''" "\<not> isNumber ''XB''" "\<not> isNumber ''2d''" "\<not> isNumber ''Warn''"
  "\<not> isNumber ''File''" "\<not> isNumber ''11:45''" "\<not> isNumber ''true''" "\<not> isNumber ''50MB''"
  "\<not> isNumber ''d''" "\<not> isNumber ''100MiB''" "\<not> isNumber ''100XB''"
  by (simp_all add: isNumber_def isdigit_def)

lemma not_bool:
  "\<not> isBool ''/var/log/app''" "\<not> isBool ''XB''" "\<not> isBool ''2d''" "\<not> isBool ''Warn''"
  "\<not> isBool ''File''" "\<not> isBool ''11:45''" "\<not> isBool ''50MB''" "\<not> isBool ''d''"
  "\<not> isBool ''100MiB''" "\<not> isBool ''100XB''"
  by (simp_all add: isBool_def tolower_def)

lemma read_failing:
  "EMap_read [''LogDirectoryPath'', ''/var/log/app'', ''MaxLogFileSize'', ''50MB'',
              ''RemoveLogsOlderThan'', ''d''] []
   = Inr [(''LogDirectoryPath'', AnyString ''/var/log/app''), (''MaxLogFileSize'', AnyString ''50MB''),
          (''RemoveLogsOlderThan'', AnyString ''d'')]"
  by (simp add: not_number not_bool EMap_add_def containsKey_def)

lemma read_full:
  "EMap_read [''LogDirectoryPath'', ''/var/log/app'', ''MaxLogFileSize'', ''XB'',
              ''RemoveLogsOlderThan'', ''2d'', ''LogLevel'', ''Warn'', ''LogMode'', ''File'',
              ''CheckPoint'', ''11:45'', ''EnableFileWatcher'', ''true'',
              ''EnableAutoRemove'', ''true''] []
   = Inr [(''LogDirectoryPath'', AnyString ''/var/log/app''), (''MaxLogFileSize'', AnyString ''XB''),
          (''RemoveLogsOlderThan'', AnyString ''2d''), (''LogLevel'', AnyString ''Warn''),
          (''LogMode'', AnyString ''File''), (''CheckPoint'', AnyString ''11:45''),
          (''EnableFileWatcher'', AnyBool True), (''EnableAutoRemove'', AnyBool True)]"
  by (simp add: not_number not_bool isBool_true toBool_true EMap_add_def containsKey_def)

lemma read_good:
  "EMap_read [''LogDirectoryPath'', ''/var/log/app'', ''MaxLogFileSize'', ''100MiB'',
              ''RemoveLogsOlderThan'', ''2d'', ''LogLevel'', ''Warn'', ''LogMode'', ''File'',
              ''CheckPoint'', ''11:45'', ''EnableFileWatcher'', ''true'',
              ''EnableAutoRemove'', ''true''] []
   = Inr [(''LogDirectoryPath'', AnyString ''/var/log/app''), (''MaxLogFileSize'', AnyString ''100MiB''),
          (''RemoveLogsOlderThan'', AnyString ''2d''), (''LogLevel'', AnyString ''Warn''),
          (''LogMode'', AnyString ''File''), (''CheckPoint'', AnyString ''11:45''),
          (''EnableFileWatcher'', AnyBool True), (''EnableAutoRemove'', AnyBool True)]"
  by (simp add: not_number not_bool isBool_true toBool_true EMap_add_def containsKey_def)

lemma load_good:
  "load ''/home/user''
        [''LogDirectoryPath'', ''/var/log/app'', ''MaxLogFileSize'', ''100MiB'',
         ''RemoveLogsOlderThan'', ''2d'', ''LogLevel'', ''Warn'', ''LogMode'', ''File'',
         ''CheckPoint'', ''11:45'', ''EnableFileWatcher'', ''true'',
         ''EnableAutoRemove'', ''true'']
      = Inr (\<lparr>logDirectoryPath = ''/var/log/app'', maxLogFileSize = \<lparr>size_v = 100, unit_v = MiB\<rparr>,
              removeLogsOlderThan = 172800000, logLevel_cfg = Warn, logMode_cfg = File,
              checkPoint_cfg = Some \<lparr>hour = 11, minute = 45, second = 0\<rparr>,
              enableFileWatcher = True, enableAutoRemove = True\<rparr>, [])"
  by (simp add: parse_100MiB load_def read_good default_configuration_def
      load_LogDirectoryPath_def load_MaxLogFileSize_def load_RemoveLogsOlderThan_def
      load_LogLevel_def load_LogMode_def load_CheckPoint_def load_EnableFileWatcher_def
      load_EnableAutoRemove_def contains_def containsKey_def EMap_get_def has_value_def
      any_cast_string_def any_cast_bool_def parseMaxLogFileSize_def parse_2d
      parseLogLevel_Warn parseLogMode_File parseCheckPoint_11_45 del: EMap_read.simps)

lemma read_sibling:
  "EMap_read [''LogDirectoryPath'', ''/var/log/app'', ''MaxLogFileSize'', ''100XB'',
              ''RemoveLogsOlderThan'', ''2d'', ''LogLevel'', ''Warn'', ''LogMode'', ''File'',
              ''CheckPoint'', ''11:45'', ''EnableFileWatcher'', ''true'',
              ''EnableAutoRemove'', ''true''] []
   = Inr [(''LogDirectoryPath'', AnyString ''/var/log/app''), (''MaxLogFileSize'', AnyString ''100XB''),
          (''RemoveLogsOlderThan'', AnyString ''2d''), (''LogLevel'', AnyString ''Warn''),
          (''LogMode'', AnyString ''File''), (''CheckPoint'', AnyString ''11:45''),
          (''EnableFileWatcher'', AnyBool True), (''EnableAutoRemove'', AnyBool True)]"
  by (simp add: not_number not_bool isBool_true toBool_true EMap_add_def containsKey_def)

text \<open>
  The two values of the configuration are exact: \<^verbatim>\<open>MaxLogFileSize 100MiB\<close> is the size
  100 MiB, 100 \<times> 1,048,576 = 104,857,600 bytes, and \<^verbatim>\<open>RemoveLogsOlderThan 2d\<close> is
  172,800,000 milliseconds; a file with these values loads them.
\<close>

lemma configuration_values_exact:
  "parseMaxLogFileSize ''100MiB'' = ([], Some \<lparr>size_v = 100, unit_v = MiB\<rparr>)
   \<and> bsize \<lparr>size_v = 100, unit_v = MiB\<rparr> = 100 * 1048576
   \<and> bsize \<lparr>size_v = 100, unit_v = MiB\<rparr> = 104857600
   \<and> parseRemoveLogsOlderThan ''2d'' = Inr 172800000
   \<and> load ''/home/user''
        [''LogDirectoryPath'', ''/var/log/app'', ''MaxLogFileSize'', ''100MiB'',
         ''RemoveLogsOlderThan'', ''2d'', ''LogLevel'', ''Warn'', ''LogMode'', ''File'',
         ''CheckPoint'', ''11:45'', ''EnableFileWatcher'', ''true'',
         ''EnableAutoRemove'', ''true'']
      = Inr (\<lparr>logDirectoryPath = ''/var/log/app'', maxLogFileSize = \<lparr>size_v = 100, unit_v = MiB\<rparr>,
              removeLogsOlderThan = 172800000, logLevel_cfg = Warn, logMode_cfg = File,
              checkPoint_cfg = Some \<lparr>hour = 11, minute = 45, second = 0\<rparr>,
              enableFileWatcher = True, enableAutoRemove = True\<rparr>, [])"
  using load_good by (simp add: parseMaxLogFileSize_def parse_100MiB bsize_def parse_2d)

text \<open>
  Claim C7. The claim wants every malformed value reported, the default kept and no
  error out of \<^verbatim>\<open>load\<close>, also for a \<^verbatim>\<open>RemoveLogsOlderThan\<close> value with a unit
  letter and no digits. On the file
  \<^verbatim>\<open>LogDirectoryPath /var/log/app  MaxLogFileSize 50MB  RemoveLogsOlderThan d\<close>
  the pattern matches with an empty group of digits, \<^verbatim>\<open>std::stoull("")\<close> throws
  \<^verbatim>\<open>std::invalid_argument\<close>, and the exception leaves \<^verbatim>\<open>load\<close>.
\<close>

theorem load_propagates_invalid_argument:
  "parseRemoveLogsOlderThan ''d'' = Inl invalid_argument
   \<and> load ''/home/user''
        [''LogDirectoryPath'', ''/var/log/app'', ''MaxLogFileSize'', ''50MB'',
         ''RemoveLogsOlderThan'', ''d'']
      = Inl invalid_argument"
  by (simp add: parse_d load_def read_failing load_LogDirectoryPath_def load_MaxLogFileSize_def
      load_RemoveLogsOlderThan_def contains_def containsKey_def EMap_get_def has_value_def
      any_cast_string_def parseMaxLogFileSize_def parse_50MB del: EMap_read.simps)

text \<open>
  Claim C8. \<^verbatim>\<open>MaxLogFileSize 100MiB\<close> is to give 104,857,600 bytes,
  \<^verbatim>\<open>RemoveLogsOlderThan 2d\<close> 172,800,000 milliseconds (both hold, see
  \<open>configuration_values_exact\<close>), and a value whose unit token is not a recognised
  unit is to leave the configured default unchanged. With digits before the unknown
  unit, \<^verbatim>\<open>MaxLogFileSize 100XB\<close>, the code rejects the value, reports it and keeps the
  default of 50 MB. With no digit, \<^verbatim>\<open>MaxLogFileSize XB\<close>, \<^verbatim>\<open>parseFileSize\<close> skips its
  parsing branch and returns the default-constructed size of 1 byte, and \<^verbatim>\<open>load\<close>
  stores it over the default of 50 MB, with nothing reported.
\<close>

theorem unknown_unit_without_digits:
  "parseFileSize ''XB'' = ([], Some \<lparr>size_v = 1, unit_v = B\<rparr>)
   \<and> maxLogFileSize (default_configuration ''/home/user'') = \<lparr>size_v = 50, unit_v = MB\<rparr>
   \<and> load ''/home/user''
        [''LogDirectoryPath'', ''/var/log/app'', ''MaxLogFileSize'', ''XB'',
         ''RemoveLogsOlderThan'', ''2d'', ''LogLevel'', ''Warn'', ''LogMode'', ''File'',
         ''CheckPoint'', ''11:45'', ''EnableFileWatcher'', ''true'',
         ''EnableAutoRemove'', ''true'']
      = Inr (\<lparr>logDirectoryPath = ''/var/log/app'', maxLogFileSize = \<lparr>size_v = 1, unit_v = B\<rparr>,
              removeLogsOlderThan = 172800000, logLevel_cfg = Warn, logMode_cfg = File,
              checkPoint_cfg = Some \<lparr>hour = 11, minute = 45, second = 0\<rparr>,
              enableFileWatcher = True, enableAutoRemove = True\<rparr>, [])
   \<and> load ''/home/user''
        [''LogDirectoryPath'', ''/var/log/app'', ''MaxLogFileSize'', ''100XB'',
         ''RemoveLogsOlderThan'', ''2d'', ''LogLevel'', ''Warn'', ''LogMode'', ''File'',
         ''CheckPoint'', ''11:45'', ''EnableFileWatcher'', ''true'',
         ''EnableAutoRemove'', ''true'']
      = Inr (\<lparr>logDirectoryPath = ''/var/log/app'', maxLogFileSize = \<lparr>size_v = 50, unit_v = MB\<rparr>,
              removeLogsOlderThan = 172800000, logLevel_cfg = Warn, logMode_cfg = File,
              checkPoint_cfg = Some \<lparr>hour = 11, minute = 45, second = 0\<rparr>,
              enableFileWatcher = True, enableAutoRemove = True\<rparr>,
             [''logcplus: Unexpected configuration option: 100XB''])"
proof -
  have a: "load ''/home/user''
        [''LogDirectoryPath'', ''/var/log/app'', ''MaxLogFileSize'', ''XB'',
         ''RemoveLogsOlderThan'', ''2d'', ''LogLevel'', ''Warn'', ''LogMode'', ''File'',
         ''CheckPoint'', ''11:45'', ''EnableFileWatcher'', ''true'',
         ''EnableAutoRemove'', ''true'']
      = Inr (\<lparr>logDirectoryPath = ''/var/log/app'', maxLogFileSize = \<lparr>size_v = 1, unit_v = B\<rparr>,
              removeLogsOlderThan = 172800000, logLevel_cfg = Warn, logMode_cfg = File,
              checkPoint_cfg = Some \<lparr>hour = 11, minute = 45, second = 0\<rparr>,
              enableFileWatcher = True, enableAutoRemove = True\<rparr>, [])"
    by (simp add: parse_XB load_def read_full default_configuration_def
      load_LogDirectoryPath_def load_MaxLogFileSize_def load_RemoveLogsOlderThan_def
      load_LogLevel_def load_LogMode_def load_CheckPoint_def load_EnableFileWatcher_def
      load_EnableAutoRemove_def contains_def containsKey_def EMap_get_def has_value_def
      any_cast_string_def any_cast_bool_def parseMaxLogFileSize_def parse_2d
      parseLogLevel_Warn parseLogMode_File parseCheckPoint_11_45 del: EMap_read.simps)
  have b: "load ''/home/user''
        [''LogDirectoryPath'', ''/var/log/app'', ''MaxLogFileSize'', ''100XB'',
         ''RemoveLogsOlderThan'', ''2d'', ''LogLevel'', ''Warn'', ''LogMode'', ''File'',
         ''CheckPoint'', ''11:45'', ''EnableFileWatcher'', ''true'',
         ''EnableAutoRemove'', ''true'']
      = Inr (\<lparr>logDirectoryPath = ''/var/log/app'', maxLogFileSize = \<lparr>size_v = 50, unit_v = MB\<rparr>,
              removeLogsOlderThan = 172800000, logLevel_cfg = Warn, logMode_cfg = File,
              checkPoint_cfg = Some \<lparr>hour = 11, minute = 45, second = 0\<rparr>,
              enableFileWatcher = True, enableAutoRemove = True\<rparr>,
             [''logcplus: Unexpected configuration option: 100XB''])"
    by (simp add: parse_100XB load_def read_sibling default_configuration_def
      load_LogDirectoryPath_def load_MaxLogFileSize_def load_RemoveLogsOlderThan_def
      load_LogLevel_def load_LogMode_def load_CheckPoint_def load_EnableFileWatcher_def
      load_EnableAutoRemove_def contains_def containsKey_def EMap_get_def has_value_def
      any_cast_string_def any_cast_bool_def parseMaxLogFileSize_def parse_2d unexpected_option_def
      parseLogLevel_Warn parseLogMode_File parseCheckPoint_11_45 del: EMap_read.simps)
  from a b show ?thesis by (simp add: parse_XB default_configuration_def)
qed

subsection \<open>Reopening the log file\<close>

lemma to_string_1: "to_string (Suc 0) = ''1''"
  by (simp add: to_string.simps [of "Suc 0"])

lemma to_string_2: "to_string (Suc (Suc 0)) = ''2''"
  by (simp add: to_string.simps [of "Suc (Suc 0)"])

text \<open>
  Two calls on the same day in an empty directory: the first creates
  \<^verbatim>\<open>2024-01-01.log\<close>, the second renames it to \<^verbatim>\<open>2024-01-01.log.1\<close> and creates a
  fresh \<^verbatim>\<open>2024-01-01.log\<close>.
\<close>

lemma reopen_twice_same_day:
  "reopen ''2024-01-01'' 7 ''/logs''
       (\<lparr>logMode = File, logLevel = Debug, fileHandler_open = False, fileHandler_path = [],
          messageQueue = [], work = False, wait = False\<rparr>,
        \<lparr>exists_dir = True, creatable = True, entries = []\<rparr>)
     = Inr (\<lparr>logMode = File, logLevel = Debug, fileHandler_open = True,
             fileHandler_path = ''/logs/2024-01-01.log'', messageQueue = [], work = True,
             wait = False\<rparr>,
            \<lparr>exists_dir = True, creatable = True, entries =
              [\<lparr>path = ''/logs/2024-01-01.log'', status = regular, last_write_time = 7,
                content = [], deletable = True\<rparr>]\<rparr>)
   \<and> reopen ''2024-01-01'' 8 ''/logs''
       (\<lparr>logMode = File, logLevel = Debug, fileHandler_open = True,
          fileHandler_path = ''/logs/2024-01-01.log'', messageQueue = [], work = True,
          wait = False\<rparr>,
        \<lparr>exists_dir = True, creatable = True, entries =
          [\<lparr>path = ''/logs/2024-01-01.log'', status = regular, last_write_time = 7,
            content = [], deletable = True\<rparr>]\<rparr>)
     = Inr (\<lparr>logMode = File, logLevel = Debug, fileHandler_open = True,
             fileHandler_path = ''/logs/2024-01-01.log'', messageQueue = [], work = True,
             wait = False\<rparr>,
            \<lparr>exists_dir = True, creatable = True, entries =
              [\<lparr>path = ''/logs/2024-01-01.log.1'', status = regular, last_write_time = 7,
                content = [], deletable = True\<rparr>,
               \<lparr>path = ''/logs/2024-01-01.log'', status = regular, last_write_time = 8,
                content = [], deletable = True\<rparr>]\<rparr>)"
  by (simp add: reopen_def initialize_def ofstream_open_def fs_rename_def closeHandlers_def
      processQueue_def addOptionalFileSeparator_def isFileExist_def filename_def to_string_1
      Let_def)

text \<open>
  With \<^verbatim>\<open>2024-01-01.log\<close> and \<^verbatim>\<open>2024-01-01.log.1\<close> in the directory the count is 2:
  the open file becomes \<^verbatim>\<open>2024-01-01.log.2\<close>.
\<close>

lemma reopen_third_same_day:
  "reopen ''2024-01-01'' 9 ''/logs''
       (\<lparr>logMode = File, logLevel = Debug, fileHandler_open = True,
          fileHandler_path = ''/logs/2024-01-01.log'', messageQueue = [], work = True,
          wait = False\<rparr>,
        \<lparr>exists_dir = True, creatable = True, entries =
          [\<lparr>path = ''/logs/2024-01-01.log'', status = regular, last_write_time = 5,
            content = [''first''], deletable = True\<rparr>,
           \<lparr>path = ''/logs/2024-01-01.log.1'', status = regular, last_write_time = 3,
            content = [''older''], deletable = True\<rparr>]\<rparr>)
     = Inr (\<lparr>logMode = File, logLevel = Debug, fileHandler_open = True,
             fileHandler_path = ''/logs/2024-01-01.log'', messageQueue = [], work = True,
             wait = False\<rparr>,
            \<lparr>exists_dir = True, creatable = True, entries =
              [\<lparr>path = ''/logs/2024-01-01.log.2'', status = regular, last_write_time = 5,
                content = [''first''], deletable = True\<rparr>,
               \<lparr>path = ''/logs/2024-01-01.log.1'', status = regular, last_write_time = 3,
                content = [''older''], deletable = True\<rparr>,
               \<lparr>path = ''/logs/2024-01-01.log'', status = regular, last_write_time = 9,
                content = [], deletable = True\<rparr>]\<rparr>)"
  by (simp add: reopen_def initialize_def ofstream_open_def fs_rename_def closeHandlers_def
      processQueue_def addOptionalFileSeparator_def isFileExist_def filename_def to_string_2
      Let_def)

text \<open>
  A directory that is missing and cannot be created, as the one of the empty path:
  \<^verbatim>\<open>create_directories\<close> throws and the exception leaves \<^verbatim>\<open>reopen\<close>.
\<close>

lemma reopen_without_directory:
  "reopen ''2024-01-01'' 9 []
       (\<lparr>logMode = File, logLevel = Debug, fileHandler_open = False, fileHandler_path = [],
          messageQueue = [], work = False, wait = False\<rparr>,
        \<lparr>exists_dir = False, creatable = False, entries = []\<rparr>)
     = Inl filesystem_error"
  by (simp add: reopen_def isFileExist_def create_directories_def)

text \<open>
  Claim C3. On a day whose date string is D, when a file whose name contains
  \<^verbatim>\<open>D.log\<close> is in the directory, \<^verbatim>\<open>reopen\<close> is to rename \<^verbatim>\<open>D.log\<close> to \<^verbatim>\<open>D.log.N\<close>,
  N being the count of such files, and then to create a fresh \<^verbatim>\<open>D.log\<close>. The code
  takes the count of the names that contain \<^verbatim>\<open>D.log\<close> as the sign that \<^verbatim>\<open>D.log\<close>
  exists. In a directory that holds \<^verbatim>\<open>2024-01-01.log.1\<close> and no \<^verbatim>\<open>2024-01-01.log\<close>
  the count is 1, the rename of the missing \<^verbatim>\<open>2024-01-01.log\<close> throws, and the
  exception leaves \<^verbatim>\<open>reopen\<close>: nothing is renamed and no fresh file is created.
\<close>

theorem reopen_throws_on_missing_file:
  "anyFileExists
     [\<lparr>path = ''/logs/2024-01-01.log.1'', status = regular, last_write_time = 5,
       content = [''older''], deletable = True\<rparr>] ''2024-01-01.log'' = 1
   \<and> reopen ''2024-01-01'' 9 ''/logs''
       (\<lparr>logMode = File, logLevel = Debug, fileHandler_open = False, fileHandler_path = [],
         messageQueue = [], work = False, wait = False\<rparr>,
        \<lparr>exists_dir = True, creatable = True, entries =
          [\<lparr>path = ''/logs/2024-01-01.log.1'', status = regular, last_write_time = 5,
            content = [''older''], deletable = True\<rparr>]\<rparr>)
     = Inl filesystem_error"
  by (simp add: reopen_def filename_def closeHandlers_def addOptionalFileSeparator_def
      isFileExist_def fs_rename_def to_string_1 Let_def)

end
